theory Spec2Isabelle
  imports Main
begin

section \<open>The PagerDuty notify entity (custom\_components/pagerduty\_notify/notify.py)\<close>

text \<open>
  The module is glue between Home Assistant and three libraries: aiohttp (the HTTP
  client session), async\_timeout (the deadline around the request) and logging.
  The entity's own code is embedded function by function; the libraries are modelled by
  the part of their contract the entity relies on, and everything the network decides
  (how long an answer takes, which status and body come back, which exception an await
  raises) is an argument of the call.
\<close>

subsection \<open>Constants of the module\<close>

definition EVENTS_API_URL :: string where
  "EVENTS_API_URL = ''https://events.pagerduty.com/v2/enqueue''"

definition HTTP_TIMEOUT :: nat where
  "HTTP_TIMEOUT = 10"

subsection \<open>Values: JSON bodies, exceptions, log records\<close>

text \<open>
  The argument of \<^verbatim>\<open>json=\<close> is a dict of strings and dicts. A dict is kept as an
  association list in insertion order, so that "exactly these fields" is an equation.
\<close>

datatype json = JString string | JObject "(string \<times> json) list"

fun json_get :: "json \<Rightarrow> string \<Rightarrow> json option" where
  "json_get (JObject kvs) k = map_of kvs k"
| "json_get (JString _) k = None"

fun json_path :: "json \<Rightarrow> string list \<Rightarrow> json option" where
  "json_path j [] = Some j"
| "json_path j (k # ks) = (case json_get j k of None \<Rightarrow> None | Some j' \<Rightarrow> json_path j' ks)"

text \<open>
  Python exceptions that can reach the \<^verbatim>\<open>except Exception\<close> clause. The first four are
  instances of \<^verbatim>\<open>Exception\<close>; \<^verbatim>\<open>asyncio.CancelledError\<close>, \<^verbatim>\<open>KeyboardInterrupt\<close> and
  \<^verbatim>\<open>SystemExit\<close> derive from \<^verbatim>\<open>BaseException\<close> only.
\<close>

datatype py_exception =
    ClientError string
  | TimeoutError
  | RuntimeError string
  | OtherException string
  | CancelledError
  | KeyboardInterrupt
  | SystemExit

fun isinstance_Exception :: "py_exception \<Rightarrow> bool" where
  "isinstance_Exception (ClientError _) = True"
| "isinstance_Exception TimeoutError = True"
| "isinstance_Exception (RuntimeError _) = True"
| "isinstance_Exception (OtherException _) = True"
| "isinstance_Exception CancelledError = False"
| "isinstance_Exception KeyboardInterrupt = False"
| "isinstance_Exception SystemExit = False"

text \<open>
  \<^verbatim>\<open>_LOGGER.error(fmt, status, body)\<close> leaves an error record with its format string and
  two arguments; \<^verbatim>\<open>_LOGGER.exception(msg)\<close> leaves an error record with the message and
  the exception being handled.
\<close>

datatype log_record =
    Error_record string int string
  | Exception_record string py_exception

subsection \<open>The environment: awaited calls, the client session, the world\<close>

text \<open>
  An awaited library call returns a value after some time, raises after some time, or
  never completes. Time is counted in the units of \<open>HTTP_TIMEOUT\<close>; synchronous code
  takes none.
\<close>

datatype 'a awaited = Returns nat 'a | Raises nat py_exception | Stalls

datatype response = Response (status: int) (response_text: "string awaited")

type_synonym exchange = "response awaited"

type_synonym session_ref = nat

record ClientSession =
  closed :: bool

text \<open>
  The world outside the entity: the store of client sessions (the entity's field holds a
  reference into it), the number of sessions constructed so far (the next fresh
  reference), the calls of \<^verbatim>\<open>post\<close> and \<^verbatim>\<open>close\<close> made on sessions, the connectors that
  were really released, the log sink, and the clock.
\<close>

record world =
  heap :: "session_ref \<Rightarrow> ClientSession"
  created :: nat
  post_calls :: "(session_ref \<times> string \<times> json) list"
  close_calls :: "session_ref list"
  released :: "session_ref list"
  log_sink :: "log_record list"
  clock :: nat

definition world0 :: world where
  "world0 = \<lparr>heap = (\<lambda>_. \<lparr>closed = True\<rparr>), created = 0, post_calls = [], close_calls = [],
     released = [], log_sink = [], clock = 0\<rparr>"

text \<open>\<^verbatim>\<open>aiohttp.ClientSession()\<close>: a fresh, open session.\<close>

definition ClientSession_new :: "world \<Rightarrow> session_ref \<times> world" where
  "ClientSession_new w =
     (created w, w\<lparr>heap := (heap w)(created w := \<lparr>closed = False\<rparr>), created := Suc (created w)\<rparr>)"

text \<open>
  \<^verbatim>\<open>ClientSession.close()\<close> releases the connector unless the session is closed already
  (aiohttp guards the release with \<^verbatim>\<open>if not self.closed\<close>); it does not raise.
\<close>

definition ClientSession_close :: "session_ref \<Rightarrow> world \<Rightarrow> world" where
  "ClientSession_close r w =
     (let w1 = w\<lparr>close_calls := close_calls w @ [r]\<rparr>
      in if closed (heap w r) then w1
         else w1\<lparr>heap := (heap w)(r := \<lparr>closed = True\<rparr>), released := released w @ [r]\<rparr>)"

text \<open>
  \<^verbatim>\<open>ClientSession.post(url, json=body)\<close>: on a closed session aiohttp raises
  \<^verbatim>\<open>RuntimeError("Session is closed")\<close> before any I/O; on an open one the network decides.
\<close>

definition ClientSession_post ::
  "session_ref \<Rightarrow> string \<Rightarrow> json \<Rightarrow> exchange \<Rightarrow> world \<Rightarrow> exchange \<times> world" where
  "ClientSession_post r url body net w =
     (let w1 = w\<lparr>post_calls := post_calls w @ [(r, url, body)]\<rparr>
      in if closed (heap w r) then (Raises 0 (RuntimeError ''Session is closed''), w1)
         else (net, w1))"

text \<open>
  An await inside \<^verbatim>\<open>async_timeout.timeout\<close> with \<open>budget\<close> units left: it completes when
  it is done by the deadline, and raises \<^verbatim>\<open>asyncio.TimeoutError\<close> at the deadline
  otherwise. The result is the time spent and the value or exception.
\<close>

fun await_within :: "nat \<Rightarrow> 'a awaited \<Rightarrow> nat \<times> (py_exception + 'a)" where
  "await_within budget (Returns d x) =
     (if d \<le> budget then (d, Inr x) else (budget, Inl TimeoutError))"
| "await_within budget (Raises d e) =
     (if d \<le> budget then (d, Inl e) else (budget, Inl TimeoutError))"
| "await_within budget Stalls = (budget, Inl TimeoutError)"

subsection \<open>The entity\<close>

record PagerDutyNotifyEntity =
  attr_name :: string
  routing_key :: string
  source :: string
  severity :: string
  session :: "session_ref option"

type_synonym state = "PagerDutyNotifyEntity \<times> world"

text \<open>\<^verbatim>\<open>__init__\<close>: plain assignments, no session yet.\<close>

definition PagerDutyNotifyEntity_init ::
  "string \<Rightarrow> string \<Rightarrow> string \<Rightarrow> string \<Rightarrow> PagerDutyNotifyEntity" where
  "PagerDutyNotifyEntity_init name rkey default_source default_severity =
     \<lparr>attr_name = name, routing_key = rkey, source = default_source,
      severity = default_severity, session = None\<rparr>"

text \<open>
  \<^verbatim>\<open>title or message\<close>: Python's \<^verbatim>\<open>or\<close> yields its left operand when that is truthy; \<^verbatim>\<open>None\<close>
  and the empty string are falsy.
\<close>

definition title_or_message :: "string option \<Rightarrow> string \<Rightarrow> string" where
  "title_or_message title message =
     (case title of None \<Rightarrow> message | Some t \<Rightarrow> if t = [] then message else t)"

text \<open>The dict bound to \<^verbatim>\<open>payload\<close> in \<^verbatim>\<open>async_send_message\<close>.\<close>

definition payload :: "PagerDutyNotifyEntity \<Rightarrow> string \<Rightarrow> string option \<Rightarrow> json" where
  "payload self message title =
     JObject [
       (''routing_key'', JString (routing_key self)),
       (''event_action'', JString ''trigger''),
       (''payload'', JObject [
          (''summary'', JString (title_or_message title message)),
          (''source'', JString (source self)),
          (''severity'', JString (severity self))])]"

text \<open>Lines 63-64: the session is created on first use and kept in the field.\<close>

definition ensure_session :: "state \<Rightarrow> session_ref \<times> state" where
  "ensure_session sw =
     (case session (fst sw) of
        None \<Rightarrow> (let (r, w') = ClientSession_new (snd sw) in (r, (fst sw)\<lparr>session := Some r\<rparr>, w'))
      | Some r \<Rightarrow> (r, sw))"

text \<open>
  The body of the \<^verbatim>\<open>try\<close>: under one deadline of \<open>HTTP_TIMEOUT\<close>, post the body, and
  when the status is not 202 read the response text and log it. It yields the exception
  that leaves the block, if any, and the world after it.
\<close>

definition try_block :: "session_ref \<Rightarrow> json \<Rightarrow> exchange \<Rightarrow> world \<Rightarrow> py_exception option \<times> world" where
  "try_block r body net w =
     (let (outcome, w1) = ClientSession_post r EVENTS_API_URL body net w;
          (t1, res) = await_within HTTP_TIMEOUT outcome;
          w2 = w1\<lparr>clock := clock w1 + t1\<rparr>
      in case res of
           Inl e \<Rightarrow> (Some e, w2)
         | Inr resp \<Rightarrow>
             if status resp \<noteq> 202 then
               (let (t2, res2) = await_within (HTTP_TIMEOUT - t1) (response_text resp);
                    w3 = w2\<lparr>clock := clock w2 + t2\<rparr>
                in case res2 of
                     Inl e \<Rightarrow> (Some e, w3)
                   | Inr txt \<Rightarrow>
                       (None, w3\<lparr>log_sink := log_sink w3 @
                          [Error_record ''PagerDuty response %s: %s'' (status resp) txt]\<rparr>))
             else (None, w2))"

text \<open>
  \<^verbatim>\<open>async_send_message\<close>. The result is \<open>Inr ()\<close> when the coroutine returns and \<open>Inl e\<close>
  when \<open>e\<close> propagates to the caller; the state after the call is returned in both cases.
\<close>

definition async_send_message ::
  "string \<Rightarrow> string option \<Rightarrow> exchange \<Rightarrow> state \<Rightarrow> (py_exception + unit) \<times> state" where
  "async_send_message message title net sw =
     (let (r, self1, w1) = ensure_session sw;
          (raised, w2) = try_block r (payload self1 message title) net w1
      in case raised of
           None \<Rightarrow> (Inr (), self1, w2)
         | Some e \<Rightarrow>
             if isinstance_Exception e then
               (Inr (), self1,
                w2\<lparr>log_sink := log_sink w2 @ [Exception_record ''Failed to send PagerDuty event'' e]\<rparr>)
             else (Inl e, self1, w2))"

text \<open>\<^verbatim>\<open>async_will_remove_from_hass\<close>: close the session when the field is set.\<close>

definition async_will_remove_from_hass :: "state \<Rightarrow> (py_exception + unit) \<times> state" where
  "async_will_remove_from_hass sw =
     (case session (fst sw) of
        None \<Rightarrow> (Inr (), sw)
      | Some r \<Rightarrow> (Inr (), fst sw, ClientSession_close r (snd sw)))"

subsection \<open>Sequences of calls on one entity\<close>

datatype call = Deliver string "string option" exchange | Teardown

fun step :: "state \<Rightarrow> call \<Rightarrow> state" where
  "step sw (Deliver message title net) = snd (async_send_message message title net sw)"
| "step sw Teardown = snd (async_will_remove_from_hass sw)"

definition run :: "call list \<Rightarrow> state \<Rightarrow> state" where
  "run calls sw = foldl step sw calls"

text \<open>The post calls made between an earlier world and a later one.\<close>

definition posts_since :: "world \<Rightarrow> world \<Rightarrow> (session_ref \<times> string \<times> json) list" where
  "posts_since w w' = drop (length (post_calls w)) (post_calls w')"

text \<open>
  The time the request/response cycle needs when nothing cuts it short (\<open>None\<close>: it never
  completes), and whether that exceeds the deadline.
\<close>

fun awaited_time :: "'a awaited \<Rightarrow> nat option" where
  "awaited_time (Returns d _) = Some d"
| "awaited_time (Raises d _) = Some d"
| "awaited_time Stalls = None"

fun cycle_time :: "exchange \<Rightarrow> nat option" where
  "cycle_time (Returns d resp) =
     (if status resp \<noteq> 202 then
        (case awaited_time (response_text resp) of None \<Rightarrow> None | Some d2 \<Rightarrow> Some (d + d2))
      else Some d)"
| "cycle_time (Raises d _) = Some d"
| "cycle_time Stalls = None"

definition expires :: "exchange \<Rightarrow> bool" where
  "expires net = (case cycle_time net of None \<Rightarrow> True | Some t \<Rightarrow> HTTP_TIMEOUT < t)"

text \<open>Whether the entity holds no session yet or an open one.\<close>

definition session_usable :: "state \<Rightarrow> bool" where
  "session_usable sw =
     (case session (fst sw) of None \<Rightarrow> True | Some r \<Rightarrow> \<not> closed (heap (snd sw) r))"

section \<open>Properties\<close>

subsection \<open>Helper facts\<close>

lemma ensure_session_None:
  "session self = None \<Longrightarrow>
   ensure_session (self, w) =
     (created w, self\<lparr>session := Some (created w)\<rparr>,
      w\<lparr>heap := (heap w)(created w := \<lparr>closed = False\<rparr>), created := Suc (created w)\<rparr>)"
  by (simp add: ensure_session_def ClientSession_new_def)

lemma ensure_session_Some:
  "session self = Some r \<Longrightarrow> ensure_session (self, w) = (r, self, w)"
  by (simp add: ensure_session_def)

lemma try_block_post_calls:
  "post_calls (snd (try_block r body net w)) = post_calls w @ [(r, EVENTS_API_URL, body)]"
  by (simp add: try_block_def ClientSession_post_def Let_def split: prod.splits sum.splits)

lemma ensure_session_fields:
  "ensure_session (self, w) = (r, self1, w1) \<Longrightarrow>
   routing_key self1 = routing_key self \<and> source self1 = source self \<and>
   severity self1 = severity self \<and> attr_name self1 = attr_name self \<and> session self1 = Some r"
  by (auto simp: ensure_session_def ClientSession_new_def split: option.splits)

lemma ensure_session_world:
  "ensure_session (self, w) = (r, self1, w1) \<Longrightarrow>
   post_calls w1 = post_calls w \<and> log_sink w1 = log_sink w \<and> clock w1 = clock w \<and>
   close_calls w1 = close_calls w \<and> released w1 = released w"
  by (auto simp: ensure_session_def ClientSession_new_def split: option.splits)

lemma async_send_message_post_calls:
  "post_calls (snd (snd (async_send_message message title net (self, w)))) =
   post_calls w @ [(fst (ensure_session (self, w)), EVENTS_API_URL, payload self message title)]"
proof -
  obtain r self1 w1 where e: "ensure_session (self, w) = (r, self1, w1)"
    by (cases "ensure_session (self, w)") auto
  obtain raised w2 where t: "try_block r (payload self1 message title) net w1 = (raised, w2)"
    by (cases "try_block r (payload self1 message title) net w1") auto
  have p: "payload self1 message title = payload self message title"
    using ensure_session_fields [OF e] by (simp add: payload_def)
  have "post_calls w2 = post_calls w1 @ [(r, EVENTS_API_URL, payload self1 message title)]"
    using try_block_post_calls [of r "payload self1 message title" net w1] t by simp
  then have "post_calls w2 = post_calls w @ [(r, EVENTS_API_URL, payload self message title)]"
    using ensure_session_world [OF e] p by simp
  then show ?thesis
    using e t by (simp add: async_send_message_def split: option.splits)
qed

lemma await_within_time: "fst (await_within budget a) \<le> budget"
  by (cases a) auto

lemma try_block_frame:
  "heap (snd (try_block r body net w)) = heap w \<and>
   created (snd (try_block r body net w)) = created w \<and>
   close_calls (snd (try_block r body net w)) = close_calls w \<and>
   released (snd (try_block r body net w)) = released w"
  by (simp add: try_block_def ClientSession_post_def Let_def split: prod.splits sum.splits)

lemma try_block_clock:
  "clock (snd (try_block r body net w)) \<le> clock w + HTTP_TIMEOUT"
proof -
  have a: "\<And>b x t res. await_within b x = (t, res) \<Longrightarrow> t \<le> b"
    using await_within_time by (metis fst_conv)
  show ?thesis
    by (auto simp: try_block_def ClientSession_post_def Let_def
        split: prod.splits sum.splits dest!: a)
qed

lemma async_send_message_unfold:
  assumes "ensure_session sw = (r, self1, w1)"
    and "try_block r (payload self1 message title) net w1 = (raised, w2)"
  shows "async_send_message message title net sw =
     (case raised of
        None \<Rightarrow> (Inr (), self1, w2)
      | Some e \<Rightarrow>
          if isinstance_Exception e then
            (Inr (), self1,
             w2\<lparr>log_sink := log_sink w2 @ [Exception_record ''Failed to send PagerDuty event'' e]\<rparr>)
          else (Inl e, self1, w2))"
  using assms by (simp add: async_send_message_def)

lemma async_send_message_entity:
  "fst (snd (async_send_message message title net sw)) = fst (snd (ensure_session sw))"
  by (simp add: async_send_message_def split: prod.splits option.splits)

lemma async_send_message_frame:
  "created (snd (snd (async_send_message message title net sw))) = created (snd (snd (ensure_session sw))) \<and>
   heap (snd (snd (async_send_message message title net sw))) = heap (snd (snd (ensure_session sw))) \<and>
   close_calls (snd (snd (async_send_message message title net sw))) = close_calls (snd (snd (ensure_session sw))) \<and>
   released (snd (snd (async_send_message message title net sw))) = released (snd (snd (ensure_session sw)))"
proof -
  obtain r self1 w1 where e: "ensure_session sw = (r, self1, w1)"
    by (cases "ensure_session sw") auto
  obtain raised w2 where t: "try_block r (payload self1 message title) net w1 = (raised, w2)"
    by (cases "try_block r (payload self1 message title) net w1") auto
  from try_block_frame [of r "payload self1 message title" net w1] t
  have "heap w2 = heap w1 \<and> created w2 = created w1 \<and> close_calls w2 = close_calls w1 \<and>
        released w2 = released w1" by simp
  then show ?thesis
    by (simp add: async_send_message_unfold [OF e t] e split: option.splits)
qed

lemma async_send_message_clock:
  "clock (snd (snd (async_send_message message title net (self, w)))) \<le> clock w + HTTP_TIMEOUT"
proof -
  obtain r self1 w1 where e: "ensure_session (self, w) = (r, self1, w1)"
    by (cases "ensure_session (self, w)") auto
  obtain raised w2 where t: "try_block r (payload self1 message title) net w1 = (raised, w2)"
    by (cases "try_block r (payload self1 message title) net w1") auto
  from try_block_clock [of r "payload self1 message title" net w1] t
  have "clock w2 \<le> clock w1 + HTTP_TIMEOUT" by simp
  moreover have "clock w1 = clock w" using ensure_session_world [OF e] by simp
  ultimately show ?thesis
    by (simp add: async_send_message_unfold [OF e t] split: option.splits)
qed

lemma ensure_session_usable:
  "session_usable (self, w) \<Longrightarrow> ensure_session (self, w) = (r, self1, w1) \<Longrightarrow>
   \<not> closed (heap w1 r)"
  by (auto simp: session_usable_def ensure_session_def ClientSession_new_def split: option.splits)

lemma try_block_open:
  "\<not> closed (heap w r) \<Longrightarrow>
   try_block r body net w =
     (let w1 = w\<lparr>post_calls := post_calls w @ [(r, EVENTS_API_URL, body)]\<rparr>;
          (t1, res) = await_within HTTP_TIMEOUT net;
          w2 = w1\<lparr>clock := clock w1 + t1\<rparr>
      in case res of
           Inl e \<Rightarrow> (Some e, w2)
         | Inr resp \<Rightarrow>
             if status resp \<noteq> 202 then
               (let (t2, res2) = await_within (HTTP_TIMEOUT - t1) (response_text resp);
                    w3 = w2\<lparr>clock := clock w2 + t2\<rparr>
                in case res2 of
                     Inl e \<Rightarrow> (Some e, w3)
                   | Inr txt \<Rightarrow>
                       (None, w3\<lparr>log_sink := log_sink w3 @
                          [Error_record ''PagerDuty response %s: %s'' (status resp) txt]\<rparr>))
             else (None, w2))"
  by (simp add: try_block_def ClientSession_post_def Let_def)

lemma try_block_closed:
  "closed (heap w r) \<Longrightarrow>
   try_block r body net w =
     (Some (RuntimeError ''Session is closed''),
      w\<lparr>post_calls := post_calls w @ [(r, EVENTS_API_URL, body)], clock := clock w\<rparr>)"
  by (simp add: try_block_def ClientSession_post_def Let_def)

subsection \<open>The request that Deliver makes\<close>

text \<open>
  Claim C1. Every call of \<open>async_send_message\<close> makes exactly one \<^verbatim>\<open>post\<close> call on the
  entity's session, to \<open>EVENTS_API_URL\<close>, and its JSON body is the object with the three
  fields \<^verbatim>\<open>routing_key\<close> (the entity's routing key), \<^verbatim>\<open>event_action\<close>
  (\<^verbatim>\<open>"trigger"\<close>) and \<^verbatim>\<open>payload\<close>, the latter with the three fields \<^verbatim>\<open>summary\<close>,
  \<^verbatim>\<open>source\<close> and \<^verbatim>\<open>severity\<close>, and nothing else. This holds whatever the network
  does. In particular the entity built from \<^verbatim>\<open>("pagerduty", "R-KEY", "home-assistant", "info")\<close>,
  asked to deliver \<^verbatim>\<open>"CPU at 95%"\<close> with title \<^verbatim>\<open>"High load"\<close>, posts the body of
  the specification's scenario to \<^verbatim>\<open>https://events.pagerduty.com/v2/enqueue\<close>.
\<close>

theorem deliver_request_body:
  "posts_since w (snd (snd (async_send_message message title net (self, w)))) =
     [(fst (ensure_session (self, w)), EVENTS_API_URL,
       JObject [
         (''routing_key'', JString (routing_key self)),
         (''event_action'', JString ''trigger''),
         (''payload'', JObject [
            (''summary'', JString (title_or_message title message)),
            (''source'', JString (source self)),
            (''severity'', JString (severity self))])])]
   \<and> posts_since world0 (snd (snd (async_send_message ''CPU at 95%'' (Some ''High load'') net
        (PagerDutyNotifyEntity_init ''pagerduty'' ''R-KEY'' ''home-assistant'' ''info'', world0)))) =
     [(0, ''https://events.pagerduty.com/v2/enqueue'',
       JObject [
         (''routing_key'', JString ''R-KEY''),
         (''event_action'', JString ''trigger''),
         (''payload'', JObject [
            (''summary'', JString ''High load''),
            (''source'', JString ''home-assistant''),
            (''severity'', JString ''info'')])])]"
  by (simp add: posts_since_def async_send_message_post_calls payload_def
      ensure_session_def ClientSession_new_def PagerDutyNotifyEntity_init_def world0_def
      EVENTS_API_URL_def title_or_message_def)

text \<open>
  Claim C2. With no title the summary of the posted payload is the message; with a
  non-empty title it is the title. (The message need not be non-empty for this.)
\<close>

theorem summary_title_precedence:
  "map (\<lambda>p. json_path (snd (snd p)) [''payload'', ''summary''])
      (posts_since w (snd (snd (async_send_message message None net (self, w))))) =
     [Some (JString message)]
   \<and> (t \<noteq> [] \<longrightarrow>
      map (\<lambda>p. json_path (snd (snd p)) [''payload'', ''summary''])
        (posts_since w (snd (snd (async_send_message message (Some t) net (self, w))))) =
       [Some (JString t)])"
  by (simp add: posts_since_def async_send_message_post_calls payload_def title_or_message_def)

theorem summary_title_precedence_witness:
  "''High load'' \<noteq> [] \<and>
   map (\<lambda>p. json_path (snd (snd p)) [''payload'', ''summary''])
     (posts_since world0 (snd (snd (async_send_message ''CPU at 95%'' (Some ''High load'') Stalls
        (PagerDutyNotifyEntity_init ''pagerduty'' ''R-KEY'' ''home-assistant'' ''info'', world0))))) =
     [Some (JString ''High load'')]"
  using summary_title_precedence [where message = "''CPU at 95%''" and w = world0 and net = Stalls
      and self = "PagerDutyNotifyEntity_init ''pagerduty'' ''R-KEY'' ''home-assistant'' ''info''"
      and t = "''High load''"]
  by simp

text \<open>
  Claim C9. A title that is present but empty is falsy for \<^verbatim>\<open>or\<close>, so the summary of
  the posted payload is the message.
\<close>

theorem empty_title_uses_message:
  "map (\<lambda>p. json_path (snd (snd p)) [''payload'', ''summary''])
      (posts_since w (snd (snd (async_send_message message (Some []) net (self, w))))) =
     [Some (JString message)]"
  by (simp add: posts_since_def async_send_message_post_calls payload_def title_or_message_def)

subsection \<open>Responses other than 202\<close>

text \<open>
  Claim C3, as amended. When the endpoint answers with a status other than 202 and the
  read of the response body returns its text before the deadline (post and read together
  within \<open>HTTP_TIMEOUT\<close>, on a session that has not been closed), the call appends one
  error record with the status and the body to the log sink and returns without raising.
  The witness is the answer 500 with body \<^verbatim>\<open>"boom"\<close>.
\<close>

theorem non_202_logged:
  assumes "session_usable (self, w)" and "s \<noteq> 202" and "d1 + d2 \<le> HTTP_TIMEOUT"
  shows "fst (async_send_message message title (Returns d1 (Response s (Returns d2 b))) (self, w)) = Inr ()
    \<and> log_sink (snd (snd (async_send_message message title (Returns d1 (Response s (Returns d2 b))) (self, w)))) =
        log_sink w @ [Error_record ''PagerDuty response %s: %s'' s b]"
proof -
  obtain r self1 w1 where e: "ensure_session (self, w) = (r, self1, w1)"
    by (cases "ensure_session (self, w)") auto
  have op: "\<not> closed (heap w1 r)"
    using ensure_session_usable [OF assms(1) e] .
  have l: "log_sink w1 = log_sink w"
    using ensure_session_world [OF e] by simp
  show ?thesis
    using assms(2,3) l
    by (simp add: async_send_message_def e try_block_open [OF op] Let_def)
qed

theorem non_202_logged_witness:
  "fst (async_send_message ''CPU at 95%'' (Some ''High load'') (Returns 1 (Response 500 (Returns 1 ''boom'')))
      (PagerDutyNotifyEntity_init ''pagerduty'' ''R-KEY'' ''home-assistant'' ''info'', world0)) = Inr ()
   \<and> log_sink (snd (snd (async_send_message ''CPU at 95%'' (Some ''High load'')
      (Returns 1 (Response 500 (Returns 1 ''boom'')))
      (PagerDutyNotifyEntity_init ''pagerduty'' ''R-KEY'' ''home-assistant'' ''info'', world0)))) =
     [Error_record ''PagerDuty response %s: %s'' 500 ''boom'']"
proof -
  have u: "session_usable (PagerDutyNotifyEntity_init ''pagerduty'' ''R-KEY'' ''home-assistant'' ''info'', world0)"
    by (simp add: session_usable_def PagerDutyNotifyEntity_init_def)
  have s: "(500::int) \<noteq> 202" by simp
  have d: "(1::nat) + 1 \<le> HTTP_TIMEOUT" by (simp add: HTTP_TIMEOUT_def)
  show ?thesis
    using non_202_logged [OF u s d, where message = "''CPU at 95%''" and title = "Some ''High load''"
        and b = "''boom''"]
    by (simp add: world0_def)
qed

text \<open>
  A status other than 202 alone does not give the record of status and body: the body is
  read inside the same \<^verbatim>\<open>try\<close> and under the same deadline. When the body of a 500
  answer arrives after the deadline, or its read raises, the log sink holds only the
  exception record of the failure; when the read is cancelled, the call raises and logs
  nothing.
\<close>

theorem non_202_body_unread:
  "fst (async_send_message ''CPU at 95%'' (Some ''High load'') (Returns 1 (Response 500 (Returns 10 ''boom'')))
      (PagerDutyNotifyEntity_init ''pagerduty'' ''R-KEY'' ''home-assistant'' ''info'', world0)) = Inr ()
   \<and> log_sink (snd (snd (async_send_message ''CPU at 95%'' (Some ''High load'')
      (Returns 1 (Response 500 (Returns 10 ''boom'')))
      (PagerDutyNotifyEntity_init ''pagerduty'' ''R-KEY'' ''home-assistant'' ''info'', world0)))) =
     [Exception_record ''Failed to send PagerDuty event'' TimeoutError]
   \<and> log_sink (snd (snd (async_send_message ''CPU at 95%'' (Some ''High load'')
      (Returns 1 (Response 500 (Raises 1 (OtherException ''UnicodeDecodeError''))))
      (PagerDutyNotifyEntity_init ''pagerduty'' ''R-KEY'' ''home-assistant'' ''info'', world0)))) =
     [Exception_record ''Failed to send PagerDuty event'' (OtherException ''UnicodeDecodeError'')]
   \<and> fst (async_send_message ''CPU at 95%'' (Some ''High load'')
      (Returns 1 (Response 500 (Raises 1 CancelledError)))
      (PagerDutyNotifyEntity_init ''pagerduty'' ''R-KEY'' ''home-assistant'' ''info'', world0)) =
     Inl CancelledError
   \<and> log_sink (snd (snd (async_send_message ''CPU at 95%'' (Some ''High load'')
      (Returns 1 (Response 500 (Raises 1 CancelledError)))
      (PagerDutyNotifyEntity_init ''pagerduty'' ''R-KEY'' ''home-assistant'' ''info'', world0)))) = []"
  by (simp add: async_send_message_def ensure_session_def ClientSession_new_def
      PagerDutyNotifyEntity_init_def world0_def try_block_def ClientSession_post_def
      HTTP_TIMEOUT_def Let_def)

subsection \<open>Exceptions at the delivery boundary\<close>

lemma async_send_message_result:
  "fst (async_send_message message title net sw) = Inr () \<or>
   (\<exists>e. fst (async_send_message message title net sw) = Inl e \<and> \<not> isinstance_Exception e)"
proof -
  obtain r self1 w1 where e: "ensure_session sw = (r, self1, w1)"
    by (cases "ensure_session sw") auto
  obtain raised w2 where t: "try_block r (payload self1 message title) net w1 = (raised, w2)"
    by (cases "try_block r (payload self1 message title) net w1") auto
  show ?thesis
    by (cases raised) (simp_all add: async_send_message_unfold [OF e t])
qed

lemma async_send_message_post_raises:
  assumes "session_usable (self, w)" and "d \<le> HTTP_TIMEOUT"
  shows "async_send_message message title (Raises d e) (self, w) =
     (let (r, self1, w1) = ensure_session (self, w);
          w2 = w1\<lparr>post_calls := post_calls w1 @ [(r, EVENTS_API_URL, payload self1 message title)],
                 clock := clock w1 + d\<rparr>
      in if isinstance_Exception e then
           (Inr (), self1,
            w2\<lparr>log_sink := log_sink w2 @ [Exception_record ''Failed to send PagerDuty event'' e]\<rparr>)
         else (Inl e, self1, w2))"
proof -
  obtain r self1 w1 where e: "ensure_session (self, w) = (r, self1, w1)"
    by (cases "ensure_session (self, w)") auto
  have op: "\<not> closed (heap w1 r)"
    using ensure_session_usable [OF assms(1) e] .
  show ?thesis
    using assms(2) by (simp add: async_send_message_def e try_block_open [OF op])
qed

lemma async_send_message_text_raises:
  assumes "session_usable (self, w)" and "s \<noteq> 202" and "d1 + d2 \<le> HTTP_TIMEOUT"
  shows "async_send_message message title (Returns d1 (Response s (Raises d2 e))) (self, w) =
     (let (r, self1, w1) = ensure_session (self, w);
          w2 = w1\<lparr>post_calls := post_calls w1 @ [(r, EVENTS_API_URL, payload self1 message title)],
                 clock := clock w1 + d1 + d2\<rparr>
      in if isinstance_Exception e then
           (Inr (), self1,
            w2\<lparr>log_sink := log_sink w2 @ [Exception_record ''Failed to send PagerDuty event'' e]\<rparr>)
         else (Inl e, self1, w2))"
proof -
  obtain r self1 w1 where e: "ensure_session (self, w) = (r, self1, w1)"
    by (cases "ensure_session (self, w)") auto
  have op: "\<not> closed (heap w1 r)"
    using ensure_session_usable [OF assms(1) e] .
  have n: "d1 \<le> HTTP_TIMEOUT" "d2 \<le> HTTP_TIMEOUT - d1"
    using assms(3) by arith+
  show ?thesis
    using assms(2) n by (simp add: async_send_message_def e try_block_open [OF op] add.assoc)
qed

text \<open>
  Claim C4, as amended. An exception that is an instance of \<^verbatim>\<open>Exception\<close> never reaches
  the caller. When such an exception leaves the \<^verbatim>\<open>try\<close> block (a network failure, the
  expiry of the deadline, a closed session, a failed read of the response body, or any
  other), the call catches it, appends one exception record with the message
  \<^verbatim>\<open>Failed to send PagerDuty event\<close> to the log sink and returns normally; so it does when
  the post raises it and when the read of the response body raises it. An exception that
  is not an instance of \<^verbatim>\<open>Exception\<close> propagates to the caller and is not logged,
  whether the post or the read of the response body raises it.
\<close>

theorem deliver_catches_Exception:
  "(isinstance_Exception e \<longrightarrow> fst (async_send_message message title net sw) \<noteq> Inl e)
   \<and> (isinstance_Exception e \<and> ensure_session sw = (r, self1, w1) \<and>
       try_block r (payload self1 message title) net w1 = (Some e, w2) \<longrightarrow>
        async_send_message message title net sw =
          (Inr (), self1,
           w2\<lparr>log_sink := log_sink w2 @ [Exception_record ''Failed to send PagerDuty event'' e]\<rparr>))
   \<and> (isinstance_Exception e \<and> session_usable (self, w) \<and> d \<le> HTTP_TIMEOUT \<longrightarrow>
        fst (async_send_message message title (Raises d e) (self, w)) = Inr ()
      \<and> log_sink (snd (snd (async_send_message message title (Raises d e) (self, w)))) =
          log_sink w @ [Exception_record ''Failed to send PagerDuty event'' e])
   \<and> (isinstance_Exception e \<and> session_usable (self, w) \<and> s \<noteq> 202 \<and> d1 + d2 \<le> HTTP_TIMEOUT \<longrightarrow>
        fst (async_send_message message title (Returns d1 (Response s (Raises d2 e))) (self, w)) = Inr ()
      \<and> log_sink (snd (snd (async_send_message message title
            (Returns d1 (Response s (Raises d2 e))) (self, w)))) =
          log_sink w @ [Exception_record ''Failed to send PagerDuty event'' e])
   \<and> (\<not> isinstance_Exception e' \<and> session_usable (self, w) \<and> d \<le> HTTP_TIMEOUT \<longrightarrow>
        fst (async_send_message message title (Raises d e') (self, w)) = Inl e'
      \<and> log_sink (snd (snd (async_send_message message title (Raises d e') (self, w)))) = log_sink w)
   \<and> (\<not> isinstance_Exception e' \<and> session_usable (self, w) \<and> s \<noteq> 202 \<and> d1 + d2 \<le> HTTP_TIMEOUT \<longrightarrow>
        fst (async_send_message message title (Returns d1 (Response s (Raises d2 e'))) (self, w)) = Inl e'
      \<and> log_sink (snd (snd (async_send_message message title
            (Returns d1 (Response s (Raises d2 e'))) (self, w)))) = log_sink w)"
proof -
  have a: "fst (async_send_message message title net sw) \<noteq> Inl e" if "isinstance_Exception e"
    using that async_send_message_result [of message title net sw] by auto
  have b: "async_send_message message title net sw =
          (Inr (), self1,
           w2\<lparr>log_sink := log_sink w2 @ [Exception_record ''Failed to send PagerDuty event'' e]\<rparr>)"
    if "isinstance_Exception e" "ensure_session sw = (r, self1, w1)"
      "try_block r (payload self1 message title) net w1 = (Some e, w2)"
    using that by (simp add: async_send_message_unfold)
  obtain r0 self0 w0 where e0: "ensure_session (self, w) = (r0, self0, w0)"
    by (cases "ensure_session (self, w)") auto
  have l: "log_sink w0 = log_sink w"
    using ensure_session_world [OF e0] by simp
  have c: "fst (async_send_message message title (Raises d e) (self, w)) = Inr ()
      \<and> log_sink (snd (snd (async_send_message message title (Raises d e) (self, w)))) =
          log_sink w @ [Exception_record ''Failed to send PagerDuty event'' e]"
    if "isinstance_Exception e" "session_usable (self, w)" "d \<le> HTTP_TIMEOUT"
    using that l by (simp add: async_send_message_post_raises e0)
  have d: "fst (async_send_message message title (Returns d1 (Response s (Raises d2 e))) (self, w)) = Inr ()
      \<and> log_sink (snd (snd (async_send_message message title
            (Returns d1 (Response s (Raises d2 e))) (self, w)))) =
          log_sink w @ [Exception_record ''Failed to send PagerDuty event'' e]"
    if "isinstance_Exception e" "session_usable (self, w)" "s \<noteq> 202" "d1 + d2 \<le> HTTP_TIMEOUT"
    using that l by (simp add: async_send_message_text_raises e0)
  have f: "fst (async_send_message message title (Raises d e') (self, w)) = Inl e'
      \<and> log_sink (snd (snd (async_send_message message title (Raises d e') (self, w)))) = log_sink w"
    if "\<not> isinstance_Exception e'" "session_usable (self, w)" "d \<le> HTTP_TIMEOUT"
    using that l by (simp add: async_send_message_post_raises e0)
  have g: "fst (async_send_message message title (Returns d1 (Response s (Raises d2 e'))) (self, w)) = Inl e'
      \<and> log_sink (snd (snd (async_send_message message title
            (Returns d1 (Response s (Raises d2 e'))) (self, w)))) = log_sink w"
    if "\<not> isinstance_Exception e'" "session_usable (self, w)" "s \<noteq> 202" "d1 + d2 \<le> HTTP_TIMEOUT"
    using that l by (simp add: async_send_message_text_raises e0)
  show ?thesis
    using a b c d f g by blast
qed

theorem deliver_catches_Exception_witness:
  "fst (async_send_message ''CPU at 95%'' None (Raises 2 (ClientError ''connection reset''))
      (PagerDutyNotifyEntity_init ''pagerduty'' ''R-KEY'' ''home-assistant'' ''info'', world0)) = Inr ()
   \<and> log_sink (snd (snd (async_send_message ''CPU at 95%'' None (Raises 2 (ClientError ''connection reset''))
      (PagerDutyNotifyEntity_init ''pagerduty'' ''R-KEY'' ''home-assistant'' ''info'', world0)))) =
     [Exception_record ''Failed to send PagerDuty event'' (ClientError ''connection reset'')]
   \<and> fst (async_send_message ''CPU at 95%'' None
      (Returns 1 (Response 500 (Raises 1 (ClientError ''connection reset''))))
      (PagerDutyNotifyEntity_init ''pagerduty'' ''R-KEY'' ''home-assistant'' ''info'', world0)) = Inr ()
   \<and> log_sink (snd (snd (async_send_message ''CPU at 95%'' None
      (Returns 1 (Response 500 (Raises 1 (ClientError ''connection reset''))))
      (PagerDutyNotifyEntity_init ''pagerduty'' ''R-KEY'' ''home-assistant'' ''info'', world0)))) =
     [Exception_record ''Failed to send PagerDuty event'' (ClientError ''connection reset'')]
   \<and> fst (async_send_message ''CPU at 95%'' None (Raises 2 KeyboardInterrupt)
      (PagerDutyNotifyEntity_init ''pagerduty'' ''R-KEY'' ''home-assistant'' ''info'', world0)) =
     Inl KeyboardInterrupt
   \<and> fst (async_send_message ''CPU at 95%'' None (Returns 1 (Response 500 (Raises 1 KeyboardInterrupt)))
      (PagerDutyNotifyEntity_init ''pagerduty'' ''R-KEY'' ''home-assistant'' ''info'', world0)) =
     Inl KeyboardInterrupt"
proof -
  let ?self = "PagerDutyNotifyEntity_init ''pagerduty'' ''R-KEY'' ''home-assistant'' ''info''"
  let ?self1 = "?self\<lparr>session := Some 0\<rparr>"
  let ?w1 = "world0\<lparr>heap := (heap world0)(0 := \<lparr>closed = False\<rparr>), created := Suc 0\<rparr>"
  let ?w2 = "?w1\<lparr>post_calls := [(0, EVENTS_API_URL, payload ?self1 ''CPU at 95%'' None)], clock := 2\<rparr>"
  have i: "isinstance_Exception (ClientError ''connection reset'')"
      "\<not> isinstance_Exception KeyboardInterrupt"
    by simp_all
  have e: "ensure_session (?self, world0) = (0, ?self1, ?w1)"
    by (simp add: ensure_session_def ClientSession_new_def PagerDutyNotifyEntity_init_def world0_def)
  have t: "try_block 0 (payload ?self1 ''CPU at 95%'' None) (Raises 2 (ClientError ''connection reset'')) ?w1 =
      (Some (ClientError ''connection reset''), ?w2)"
    by (simp add: try_block_def ClientSession_post_def HTTP_TIMEOUT_def world0_def)
  have u: "session_usable (?self, world0)"
    by (simp add: session_usable_def PagerDutyNotifyEntity_init_def)
  have n: "(2::nat) \<le> HTTP_TIMEOUT" "(500::int) \<noteq> 202" "(1::nat) + 1 \<le> HTTP_TIMEOUT"
    by (simp_all add: HTTP_TIMEOUT_def)
  show ?thesis
    using i e t u n
      deliver_catches_Exception [where e = "ClientError ''connection reset''" and e' = KeyboardInterrupt
        and message = "''CPU at 95%''" and title = None
        and net = "Raises 2 (ClientError ''connection reset'')" and sw = "(?self, world0)"
        and r = 0 and ?self1.0 = ?self1 and ?w1.0 = ?w1 and ?w2.0 = ?w2 and self = ?self and w = world0
        and d = 2 and s = 500 and ?d1.0 = 1 and ?d2.0 = 1]
    by (simp add: world0_def)
qed

text \<open>
  The claim as written says that every exception is caught and that the call always
  returns normally. \<^verbatim>\<open>except Exception\<close> does not catch exceptions that derive from
  \<^verbatim>\<open>BaseException\<close> only: when the awaited post is cancelled, \<^verbatim>\<open>asyncio.CancelledError\<close>
  leaves the coroutine and nothing is logged.
\<close>

theorem cancellation_propagates:
  "fst (async_send_message ''CPU at 95%'' None (Raises 2 CancelledError)
      (PagerDutyNotifyEntity_init ''pagerduty'' ''R-KEY'' ''home-assistant'' ''info'', world0)) =
     Inl CancelledError
   \<and> log_sink (snd (snd (async_send_message ''CPU at 95%'' None (Raises 2 CancelledError)
      (PagerDutyNotifyEntity_init ''pagerduty'' ''R-KEY'' ''home-assistant'' ''info'', world0)))) = []"
  by (simp add: async_send_message_def ensure_session_def ClientSession_new_def
      PagerDutyNotifyEntity_init_def world0_def try_block_def ClientSession_post_def
      HTTP_TIMEOUT_def Let_def)

subsection \<open>The deadline\<close>

lemma try_block_expires:
  assumes "\<not> closed (heap w r)" and "expires net"
  shows "try_block r body net w =
     (Some TimeoutError,
      w\<lparr>post_calls := post_calls w @ [(r, EVENTS_API_URL, body)], clock := clock w + HTTP_TIMEOUT\<rparr>)"
proof (cases net)
  case (Returns d resp)
  show ?thesis
  proof (cases "response_text resp")
    case (Returns d2 b)
    then show ?thesis
      using assms \<open>net = Returns d resp\<close>
      by (auto simp: try_block_open expires_def Let_def)
  next
    case (Raises d2 e)
    then show ?thesis
      using assms \<open>net = Returns d resp\<close>
      by (auto simp: try_block_open expires_def Let_def)
  next
    case Stalls
    then show ?thesis
      using assms \<open>net = Returns d resp\<close>
      by (auto simp: try_block_open expires_def Let_def)
  qed
next
  case (Raises d e)
  then show ?thesis using assms by (auto simp: try_block_open expires_def Let_def)
next
  case Stalls
  then show ?thesis using assms by (auto simp: try_block_open expires_def Let_def)
qed

text \<open>
  Claim C5. The deadline is 10 units and spans the post and the read of the response
  body: no call advances the clock by more than \<open>HTTP_TIMEOUT\<close>, whatever the network
  does, also when it never answers. When the request/response cycle would take longer than
  the deadline (on a session that has not been closed), the call ends at the deadline,
  returns normally, leaves one exception record of \<^verbatim>\<open>asyncio.TimeoutError\<close> in the log
  sink, and has made one post call only: there is no retry.
\<close>

theorem deliver_bounded_by_timeout:
  "HTTP_TIMEOUT = 10
   \<and> clock (snd (snd (async_send_message message title net (self, w)))) \<le> clock w + HTTP_TIMEOUT
   \<and> (session_usable (self, w) \<and> expires net \<longrightarrow>
        fst (async_send_message message title net (self, w)) = Inr ()
      \<and> clock (snd (snd (async_send_message message title net (self, w)))) = clock w + HTTP_TIMEOUT
      \<and> log_sink (snd (snd (async_send_message message title net (self, w)))) =
          log_sink w @ [Exception_record ''Failed to send PagerDuty event'' TimeoutError]
      \<and> length (posts_since w (snd (snd (async_send_message message title net (self, w))))) = 1)"
proof -
  obtain r self1 w1 where e: "ensure_session (self, w) = (r, self1, w1)"
    by (cases "ensure_session (self, w)") auto
  have l: "log_sink w1 = log_sink w" "clock w1 = clock w"
    using ensure_session_world [OF e] by simp_all
  have x: "fst (async_send_message message title net (self, w)) = Inr ()
      \<and> clock (snd (snd (async_send_message message title net (self, w)))) = clock w + HTTP_TIMEOUT
      \<and> log_sink (snd (snd (async_send_message message title net (self, w)))) =
          log_sink w @ [Exception_record ''Failed to send PagerDuty event'' TimeoutError]"
    if u: "session_usable (self, w)" and x: "expires net"
  proof -
    have op: "\<not> closed (heap w1 r)"
      using ensure_session_usable [OF u e] .
    show ?thesis
      using l by (simp add: async_send_message_def e try_block_expires [OF op x])
  qed
  have n: "length (posts_since w (snd (snd (async_send_message message title net (self, w))))) = 1"
    by (simp add: posts_since_def async_send_message_post_calls)
  show ?thesis
    using x n async_send_message_clock [of message title net self w]
    by (simp add: HTTP_TIMEOUT_def)
qed

theorem deliver_bounded_by_timeout_witness:
  "fst (async_send_message ''CPU at 95%'' None Stalls
      (PagerDutyNotifyEntity_init ''pagerduty'' ''R-KEY'' ''home-assistant'' ''info'', world0)) = Inr ()
   \<and> clock (snd (snd (async_send_message ''CPU at 95%'' None Stalls
      (PagerDutyNotifyEntity_init ''pagerduty'' ''R-KEY'' ''home-assistant'' ''info'', world0)))) = 10
   \<and> log_sink (snd (snd (async_send_message ''CPU at 95%'' None Stalls
      (PagerDutyNotifyEntity_init ''pagerduty'' ''R-KEY'' ''home-assistant'' ''info'', world0)))) =
      [Exception_record ''Failed to send PagerDuty event'' TimeoutError]"
proof -
  have u: "session_usable (PagerDutyNotifyEntity_init ''pagerduty'' ''R-KEY'' ''home-assistant'' ''info'', world0)"
    by (simp add: session_usable_def PagerDutyNotifyEntity_init_def)
  have x: "expires Stalls"
    by (simp add: expires_def)
  show ?thesis
    using u x deliver_bounded_by_timeout [where message = "''CPU at 95%''" and title = None
        and net = Stalls and w = world0
        and self = "PagerDutyNotifyEntity_init ''pagerduty'' ''R-KEY'' ''home-assistant'' ''info''"]
    by (simp add: world0_def)
qed

subsection \<open>Teardown\<close>

lemma teardown_None:
  "session self = None \<Longrightarrow> async_will_remove_from_hass (self, w) = (Inr (), self, w)"
  by (simp add: async_will_remove_from_hass_def)

lemma teardown_Some:
  "session self = Some r \<Longrightarrow>
   async_will_remove_from_hass (self, w) = (Inr (), self, ClientSession_close r w)"
  by (simp add: async_will_remove_from_hass_def)

lemma ClientSession_close_frame:
  "created (ClientSession_close r w) = created w \<and>
   post_calls (ClientSession_close r w) = post_calls w \<and>
   log_sink (ClientSession_close r w) = log_sink w \<and>
   clock (ClientSession_close r w) = clock w \<and>
   close_calls (ClientSession_close r w) = close_calls w @ [r] \<and>
   closed (heap (ClientSession_close r w) r)"
  by (simp add: ClientSession_close_def Let_def)

lemma ClientSession_close_released:
  "released (ClientSession_close r w) = released w @ (if closed (heap w r) then [] else [r])"
  by (simp add: ClientSession_close_def Let_def)

lemma ClientSession_close_twice:
  "released (ClientSession_close r (ClientSession_close r w)) = released (ClientSession_close r w) \<and>
   heap (ClientSession_close r (ClientSession_close r w)) = heap (ClientSession_close r w)"
  by (simp add: ClientSession_close_def Let_def)

text \<open>
  Claim C8. \<open>async_will_remove_from_hass\<close> never raises. With no session it changes
  nothing. It releases the client's connector exactly when a session exists and is still
  open. A second teardown does not raise and releases nothing more: the field is not
  cleared, so \<^verbatim>\<open>close()\<close> is called again on the same session, and aiohttp's \<^verbatim>\<open>close()\<close>
  does nothing on a closed session. After one delivery on a fresh entity and two
  teardowns there are two \<^verbatim>\<open>close\<close> calls and one release.
\<close>

theorem teardown_safe:
  "fst (async_will_remove_from_hass (self, w)) = Inr ()
   \<and> (session self = None \<longrightarrow> async_will_remove_from_hass (self, w) = (Inr (), self, w))
   \<and> released (snd (snd (async_will_remove_from_hass (self, w)))) =
       released w @ (case session self of None \<Rightarrow> []
                     | Some r \<Rightarrow> if closed (heap w r) then [] else [r])
   \<and> fst (async_will_remove_from_hass (snd (async_will_remove_from_hass (self, w)))) = Inr ()
   \<and> released (snd (snd (async_will_remove_from_hass (snd (async_will_remove_from_hass (self, w)))))) =
       released (snd (snd (async_will_remove_from_hass (self, w))))
   \<and> heap (snd (snd (async_will_remove_from_hass (snd (async_will_remove_from_hass (self, w)))))) =
       heap (snd (snd (async_will_remove_from_hass (self, w))))
   \<and> (session self = None \<longrightarrow>
        released (snd (run [Deliver message title net, Teardown, Teardown] (self, w))) =
          released w @ [created w]
      \<and> close_calls (snd (run [Deliver message title net, Teardown, Teardown] (self, w))) =
          close_calls w @ [created w, created w])"
proof (cases "session self")
  case None
  obtain res self1 w1 where d: "async_send_message message title net (self, w) = (res, self1, w1)"
    by (cases "async_send_message message title net (self, w)") auto
  have s1: "session self1 = Some (created w)"
    using async_send_message_entity [of message title net "(self, w)"] d None
    by (simp add: ensure_session_None)
  have f: "released w1 = released w" "close_calls w1 = close_calls w"
      "\<not> closed (heap w1 (created w))"
    using async_send_message_frame [of message title net "(self, w)"] d None
    by (simp_all add: ensure_session_None)
  have "released (snd (run [Deliver message title net, Teardown, Teardown] (self, w))) =
          released w @ [created w]
      \<and> close_calls (snd (run [Deliver message title net, Teardown, Teardown] (self, w))) =
          close_calls w @ [created w, created w]"
    using f by (simp add: run_def d teardown_Some [OF s1] ClientSession_close_def Let_def)
  then show ?thesis
    using None by (simp add: teardown_None)
next
  case (Some r)
  then show ?thesis
    by (simp add: teardown_Some ClientSession_close_released ClientSession_close_twice
        ClientSession_close_frame)
qed

theorem teardown_safe_witness:
  "async_will_remove_from_hass
      (PagerDutyNotifyEntity_init ''pagerduty'' ''R-KEY'' ''home-assistant'' ''info'', world0) =
     (Inr (), PagerDutyNotifyEntity_init ''pagerduty'' ''R-KEY'' ''home-assistant'' ''info'', world0)
   \<and> released (snd (run [Deliver ''CPU at 95%'' None (Returns 1 (Response 202 (Returns 0 ''''))),
        Teardown, Teardown]
        (PagerDutyNotifyEntity_init ''pagerduty'' ''R-KEY'' ''home-assistant'' ''info'', world0))) = [0]
   \<and> close_calls (snd (run [Deliver ''CPU at 95%'' None (Returns 1 (Response 202 (Returns 0 ''''))),
        Teardown, Teardown]
        (PagerDutyNotifyEntity_init ''pagerduty'' ''R-KEY'' ''home-assistant'' ''info'', world0))) = [0, 0]"
proof -
  have n: "session (PagerDutyNotifyEntity_init ''pagerduty'' ''R-KEY'' ''home-assistant'' ''info'') = None"
    by (simp add: PagerDutyNotifyEntity_init_def)
  show ?thesis
    using n teardown_safe [where w = world0 and message = "''CPU at 95%''" and title = None
        and net = "Returns 1 (Response 202 (Returns 0 ''''))"
        and self = "PagerDutyNotifyEntity_init ''pagerduty'' ''R-KEY'' ''home-assistant'' ''info''"]
    by (simp add: world0_def)
qed

text \<open>
  Claim C10. On an entity that holds a session, a delivery after teardown creates no new
  session: the field is still set, the closed session is used for the post, aiohttp rejects
  the post with \<^verbatim>\<open>RuntimeError("Session is closed")\<close>, and the call logs that exception
  and returns normally.
\<close>

theorem deliver_after_teardown:
  assumes "session self = Some r"
  shows "fst (async_send_message message title net (snd (async_will_remove_from_hass (self, w)))) = Inr ()
   \<and> session (fst (snd (async_send_message message title net
        (snd (async_will_remove_from_hass (self, w)))))) = Some r
   \<and> created (snd (snd (async_send_message message title net
        (snd (async_will_remove_from_hass (self, w)))))) = created w
   \<and> posts_since w (snd (snd (async_send_message message title net
        (snd (async_will_remove_from_hass (self, w)))))) = [(r, EVENTS_API_URL, payload self message title)]
   \<and> log_sink (snd (snd (async_send_message message title net
        (snd (async_will_remove_from_hass (self, w)))))) =
       log_sink w @ [Exception_record ''Failed to send PagerDuty event'' (RuntimeError ''Session is closed'')]"
proof -
  let ?w1 = "ClientSession_close r w"
  have t: "snd (async_will_remove_from_hass (self, w)) = (self, ?w1)"
    by (simp add: teardown_Some [OF assms])
  have e: "ensure_session (self, ?w1) = (r, self, ?w1)"
    by (simp add: ensure_session_Some [OF assms])
  have c: "closed (heap ?w1 r)"
    by (simp add: ClientSession_close_frame)
  show ?thesis
    using assms
    by (simp add: t async_send_message_def e try_block_closed [OF c] ClientSession_close_frame
        posts_since_def)
qed

theorem deliver_after_teardown_witness:
  "fst (async_send_message ''again'' None (Returns 1 (Response 202 (Returns 0 '''')))
      (snd (async_will_remove_from_hass
        ((PagerDutyNotifyEntity_init ''pagerduty'' ''R-KEY'' ''home-assistant'' ''info'')\<lparr>session := Some 0\<rparr>,
         world0\<lparr>heap := (heap world0)(0 := \<lparr>closed = False\<rparr>), created := 1\<rparr>)))) = Inr ()
   \<and> log_sink (snd (snd (async_send_message ''again'' None (Returns 1 (Response 202 (Returns 0 '''')))
      (snd (async_will_remove_from_hass
        ((PagerDutyNotifyEntity_init ''pagerduty'' ''R-KEY'' ''home-assistant'' ''info'')\<lparr>session := Some 0\<rparr>,
         world0\<lparr>heap := (heap world0)(0 := \<lparr>closed = False\<rparr>), created := 1\<rparr>)))))) =
     [Exception_record ''Failed to send PagerDuty event'' (RuntimeError ''Session is closed'')]
   \<and> created (snd (snd (async_send_message ''again'' None (Returns 1 (Response 202 (Returns 0 '''')))
      (snd (async_will_remove_from_hass
        ((PagerDutyNotifyEntity_init ''pagerduty'' ''R-KEY'' ''home-assistant'' ''info'')\<lparr>session := Some 0\<rparr>,
         world0\<lparr>heap := (heap world0)(0 := \<lparr>closed = False\<rparr>), created := 1\<rparr>)))))) = 1"
proof -
  have s: "session ((PagerDutyNotifyEntity_init ''pagerduty'' ''R-KEY'' ''home-assistant'' ''info'')\<lparr>session := Some 0\<rparr>) = Some 0"
    by simp
  show ?thesis
    using deliver_after_teardown [OF s, where message = "''again''" and title = None
        and net = "Returns 1 (Response 202 (Returns 0 ''''))"
        and w = "world0\<lparr>heap := (heap world0)(0 := \<lparr>closed = False\<rparr>), created := 1\<rparr>"]
    by (simp add: world0_def)
qed

subsection \<open>Sequences of calls: defaults and the one client\<close>

lemma async_send_message_post_calls_state:
  "post_calls (snd (snd (async_send_message message title net sw))) =
   post_calls (snd sw) @ [(fst (ensure_session sw), EVENTS_API_URL, payload (fst sw) message title)]"
  using async_send_message_post_calls [of message title net "fst sw" "snd sw"] by simp

lemma teardown_post_calls:
  "post_calls (snd (snd (async_will_remove_from_hass sw))) = post_calls (snd sw)"
  by (simp add: async_will_remove_from_hass_def ClientSession_close_frame split: option.splits)

lemma run_snoc: "run (calls @ [c]) sw = step (run calls sw) c"
  by (simp add: run_def)

lemma step_fields:
  "routing_key (fst (step sw c)) = routing_key (fst sw) \<and>
   source (fst (step sw c)) = source (fst sw) \<and>
   severity (fst (step sw c)) = severity (fst sw) \<and>
   attr_name (fst (step sw c)) = attr_name (fst sw)"
proof (cases c)
  case (Deliver message title net)
  obtain r self1 w1 where e: "ensure_session (fst sw, snd sw) = (r, self1, w1)"
    by (cases "ensure_session (fst sw, snd sw)") auto
  show ?thesis
    using ensure_session_fields [OF e] e Deliver
    by (simp add: async_send_message_entity)
next
  case Teardown
  then show ?thesis
    by (simp add: async_will_remove_from_hass_def split: option.splits)
qed

lemma step_post_calls:
  "post_calls (snd (step sw c)) =
     post_calls (snd sw) @
       (case c of
          Deliver message title net \<Rightarrow>
            [(fst (ensure_session sw), EVENTS_API_URL, payload (fst sw) message title)]
        | Teardown \<Rightarrow> [])"
proof (cases c)
  case (Deliver message title net)
  then show ?thesis
    using async_send_message_post_calls [of message title net "fst sw" "snd sw"] by simp
next
  case Teardown
  then show ?thesis
    by (simp add: async_will_remove_from_hass_def ClientSession_close_frame split: option.splits)
qed

lemma run_fields:
  "routing_key (fst (run calls sw)) = routing_key (fst sw) \<and>
   source (fst (run calls sw)) = source (fst sw) \<and>
   severity (fst (run calls sw)) = severity (fst sw)"
proof (induction calls rule: rev_induct)
  case Nil
  show ?case by (simp add: run_def)
next
  case (snoc c calls)
  then show ?case by (simp add: run_snoc step_fields)
qed

lemma run_posts_payload:
  "\<exists>xs. post_calls (snd (run calls sw)) = post_calls (snd sw) @ xs \<and>
     (\<forall>p\<in>set xs. \<exists>message title. snd (snd p) = payload (fst sw) message title)"
proof (induction calls rule: rev_induct)
  case Nil
  show ?case by (simp add: run_def)
next
  case (snoc c calls)
  then obtain xs where xs: "post_calls (snd (run calls sw)) = post_calls (snd sw) @ xs"
      "\<forall>p\<in>set xs. \<exists>message title. snd (snd p) = payload (fst sw) message title"
    by blast
  show ?case
  proof (cases c)
    case (Deliver message title net)
    have "payload (fst (run calls sw)) message title = payload (fst sw) message title"
      using run_fields [of calls sw] by (simp add: payload_def)
    then have "post_calls (snd (run (calls @ [c]) sw)) =
        post_calls (snd sw) @ (xs @ [(fst (ensure_session (run calls sw)), EVENTS_API_URL,
          payload (fst sw) message title)])"
      using Deliver xs(1) step_post_calls [of "run calls sw" c] by (simp add: run_snoc)
    moreover have "\<forall>p\<in>set (xs @ [(fst (ensure_session (run calls sw)), EVENTS_API_URL,
          payload (fst sw) message title)]). \<exists>m t. snd (snd p) = payload (fst sw) m t"
      using xs(2) by auto
    ultimately show ?thesis by blast
  next
    case Teardown
    then have "post_calls (snd (run (calls @ [c]) sw)) = post_calls (snd sw) @ xs"
      using xs(1) step_post_calls [of "run calls sw" c] by (simp add: run_snoc)
    then show ?thesis using xs(2) by blast
  qed
qed

text \<open>
  Claim C6. In any sequence of deliveries and teardowns on an entity, whatever the
  messages, the titles and the network's answers, every body posted carries the default
  source and the default severity the entity was constructed with. A delivery takes a
  message and a title only, so there is nothing to override them with.
\<close>

theorem source_severity_are_defaults:
  "\<forall>p\<in>set (posts_since w (snd (run calls
        (PagerDutyNotifyEntity_init name rkey default_source default_severity, w)))).
     json_path (snd (snd p)) [''payload'', ''source''] = Some (JString default_source) \<and>
     json_path (snd (snd p)) [''payload'', ''severity''] = Some (JString default_severity)"
proof -
  let ?self = "PagerDutyNotifyEntity_init name rkey default_source default_severity"
  obtain xs where xs: "post_calls (snd (run calls (?self, w))) = post_calls w @ xs"
      "\<forall>p\<in>set xs. \<exists>message title. snd (snd p) = payload ?self message title"
    using run_posts_payload [of calls "(?self, w)"] by auto
  have "posts_since w (snd (run calls (?self, w))) = xs"
    using xs(1) by (simp add: posts_since_def)
  moreover have "json_path (payload ?self message title) [''payload'', ''source''] = Some (JString default_source)
      \<and> json_path (payload ?self message title) [''payload'', ''severity''] = Some (JString default_severity)"
    for message title
    by (simp add: payload_def PagerDutyNotifyEntity_init_def)
  ultimately show ?thesis
    using xs(2) by fastforce
qed

theorem source_severity_are_defaults_witness:
  "posts_since world0 (snd (run [Deliver ''CPU at 95%'' (Some ''High load'') Stalls, Teardown,
        Deliver ''disk full'' None (Raises 1 CancelledError)]
        (PagerDutyNotifyEntity_init ''pagerduty'' ''R-KEY'' ''home-assistant'' ''info'', world0))) \<noteq> []
   \<and> list_all (\<lambda>p.
        json_path (snd (snd p)) [''payload'', ''source''] = Some (JString ''home-assistant'') \<and>
        json_path (snd (snd p)) [''payload'', ''severity''] = Some (JString ''info''))
      (posts_since world0 (snd (run [Deliver ''CPU at 95%'' (Some ''High load'') Stalls, Teardown,
        Deliver ''disk full'' None (Raises 1 CancelledError)]
        (PagerDutyNotifyEntity_init ''pagerduty'' ''R-KEY'' ''home-assistant'' ''info'', world0))))"
proof -
  have "posts_since world0 (snd (run [Deliver ''CPU at 95%'' (Some ''High load'') Stalls, Teardown,
        Deliver ''disk full'' None (Raises 1 CancelledError)]
        (PagerDutyNotifyEntity_init ''pagerduty'' ''R-KEY'' ''home-assistant'' ''info'', world0))) \<noteq> []"
    by (simp add: posts_since_def run_def async_send_message_post_calls_state teardown_post_calls
        world0_def)
  then show ?thesis
    using source_severity_are_defaults [where w = world0 and name = "''pagerduty''" and rkey = "''R-KEY''"
        and default_source = "''home-assistant''" and default_severity = "''info''"
        and calls = "[Deliver ''CPU at 95%'' (Some ''High load'') Stalls, Teardown,
        Deliver ''disk full'' None (Raises 1 CancelledError)]"]
    by (simp add: list_all_iff)
qed

lemma step_session_Some:
  assumes "session (fst sw) = Some r"
  shows "session (fst (step sw c)) = Some r \<and> created (snd (step sw c)) = created (snd sw) \<and>
    fst (ensure_session sw) = r"
proof (cases c)
  case (Deliver message title net)
  have e: "ensure_session sw = (r, sw)"
    using ensure_session_Some [of "fst sw" r "snd sw"] assms by simp
  show ?thesis
    using Deliver assms async_send_message_frame [of message title net sw]
    by (simp add: async_send_message_entity e)
next
  case Teardown
  then show ?thesis
    using assms ensure_session_Some [of "fst sw" r "snd sw"]
    by (simp add: async_will_remove_from_hass_def ClientSession_close_frame)
qed

lemma run_session_Some:
  assumes "session (fst sw) = Some r"
  shows "session (fst (run calls sw)) = Some r \<and> created (snd (run calls sw)) = created (snd sw) \<and>
    (\<exists>xs. post_calls (snd (run calls sw)) = post_calls (snd sw) @ xs \<and> (\<forall>p\<in>set xs. fst p = r))"
proof (induction calls rule: rev_induct)
  case Nil
  show ?case using assms by (simp add: run_def)
next
  case (snoc c calls)
  then obtain xs where xs: "post_calls (snd (run calls sw)) = post_calls (snd sw) @ xs"
      "\<forall>p\<in>set xs. fst p = r"
    by blast
  have s: "session (fst (run calls sw)) = Some r" "created (snd (run calls sw)) = created (snd sw)"
    using snoc by simp_all
  have st: "session (fst (step (run calls sw) c)) = Some r"
      "created (snd (step (run calls sw) c)) = created (snd sw)"
      "fst (ensure_session (run calls sw)) = r"
    using step_session_Some [OF s(1), of c] s(2) by simp_all
  have "\<exists>ys. post_calls (snd (step (run calls sw) c)) = post_calls (snd sw) @ ys \<and>
      (\<forall>p\<in>set ys. fst p = r)"
  proof (cases c)
    case (Deliver message title net)
    have "post_calls (snd (step (run calls sw) c)) =
        post_calls (snd sw) @ (xs @ [(r, EVENTS_API_URL, payload (fst (run calls sw)) message title)])"
      using step_post_calls [of "run calls sw" c] Deliver xs(1) st(3) by simp
    moreover have "\<forall>p\<in>set (xs @ [(r, EVENTS_API_URL, payload (fst (run calls sw)) message title)]).
        fst p = r"
      using xs(2) by simp
    ultimately show ?thesis by blast
  next
    case Teardown
    have "post_calls (snd (step (run calls sw) c)) = post_calls (snd sw) @ xs"
      using step_post_calls [of "run calls sw" c] Teardown xs(1) by simp
    then show ?thesis using xs(2) by blast
  qed
  then show ?case
    using st by (simp add: run_snoc)
qed

lemma run_Cons: "run (c # calls) sw = run calls (step sw c)"
  by (simp add: run_def)

lemma step_session_None:
  assumes "session (fst sw) = None"
  shows "case c of
      Deliver message title net \<Rightarrow>
        session (fst (step sw c)) = Some (created (snd sw)) \<and>
        created (snd (step sw c)) = Suc (created (snd sw)) \<and>
        fst (ensure_session sw) = created (snd sw)
    | Teardown \<Rightarrow> step sw c = sw"
proof (cases c)
  case (Deliver message title net)
  have e: "ensure_session sw =
     (created (snd sw), (fst sw)\<lparr>session := Some (created (snd sw))\<rparr>,
      (snd sw)\<lparr>heap := (heap (snd sw))(created (snd sw) := \<lparr>closed = False\<rparr>),
        created := Suc (created (snd sw))\<rparr>)"
    using ensure_session_None [of "fst sw" "snd sw"] assms by simp
  show ?thesis
    using Deliver async_send_message_frame [of message title net sw]
    by (simp add: async_send_message_entity e)
next
  case Teardown
  then show ?thesis
    using assms teardown_None [of "fst sw" "snd sw"] by simp
qed

lemma run_session_None:
  "session (fst sw) = None \<Longrightarrow>
   created (snd (run calls sw)) \<le> Suc (created (snd sw)) \<and>
   (\<exists>xs. post_calls (snd (run calls sw)) = post_calls (snd sw) @ xs \<and>
      (\<forall>p\<in>set xs. fst p = created (snd sw)))"
proof (induction calls arbitrary: sw)
  case Nil
  show ?case by (simp add: run_def)
next
  case (Cons c calls)
  show ?case
  proof (cases c)
    case (Deliver message title net)
    have st: "session (fst (step sw c)) = Some (created (snd sw))"
        "created (snd (step sw c)) = Suc (created (snd sw))"
        "fst (ensure_session sw) = created (snd sw)"
      using step_session_None [OF Cons.prems, of c] Deliver by simp_all
    have p: "post_calls (snd (step sw c)) =
        post_calls (snd sw) @ [(created (snd sw), EVENTS_API_URL, payload (fst sw) message title)]"
      using step_post_calls [of sw c] Deliver st(3) by simp
    obtain xs where xs: "post_calls (snd (run calls (step sw c))) = post_calls (snd (step sw c)) @ xs"
        "\<forall>p\<in>set xs. fst p = created (snd sw)"
      using run_session_Some [OF st(1), of calls] by blast
    have "post_calls (snd (run (c # calls) sw)) =
        post_calls (snd sw) @ ((created (snd sw), EVENTS_API_URL, payload (fst sw) message title) # xs)"
      using p xs(1) by (simp add: run_Cons)
    moreover have "\<forall>q\<in>set ((created (snd sw), EVENTS_API_URL, payload (fst sw) message title) # xs).
        fst q = created (snd sw)"
      using xs(2) by simp
    moreover have "created (snd (run (c # calls) sw)) \<le> Suc (created (snd sw))"
      using run_session_Some [OF st(1), of calls] st(2) by (simp add: run_Cons)
    ultimately show ?thesis by blast
  next
    case Teardown
    then have "step sw c = sw"
      using step_session_None [OF Cons.prems, of c] by simp
    then show ?thesis
      using Cons.IH [OF Cons.prems] by (simp add: run_Cons)
  qed
qed

text \<open>
  Claim C7. A new entity has no session. A delivery on an entity without a session
  creates one, open, and stores it in the field. Once the field holds a session, no
  sequence of deliveries and teardowns changes the field or creates another session, and
  every post goes through that session. So over the whole life of an entity at most one
  session is created, and all its posts use it.
\<close>

theorem client_created_once:
  "session (PagerDutyNotifyEntity_init name rkey default_source default_severity) = None
   \<and> session (fst (snd (async_send_message message title net (self\<lparr>session := None\<rparr>, w)))) =
       Some (created w)
   \<and> created (snd (snd (async_send_message message title net (self\<lparr>session := None\<rparr>, w)))) =
       Suc (created w)
   \<and> \<not> closed (heap (snd (snd (async_send_message message title net (self\<lparr>session := None\<rparr>, w))))
         (created w))
   \<and> session (fst (run calls (self\<lparr>session := Some r\<rparr>, w))) = Some r
   \<and> created (snd (run calls (self\<lparr>session := Some r\<rparr>, w))) = created w
   \<and> (\<forall>p\<in>set (posts_since w (snd (run calls (self\<lparr>session := Some r\<rparr>, w)))). fst p = r)
   \<and> created (snd (run calls (PagerDutyNotifyEntity_init name rkey default_source default_severity, w)))
        \<le> Suc (created w)
   \<and> (\<forall>p\<in>set (posts_since w (snd (run calls
          (PagerDutyNotifyEntity_init name rkey default_source default_severity, w)))).
        fst p = created w)"
proof -
  let ?init = "PagerDutyNotifyEntity_init name rkey default_source default_severity"
  let ?none = "self\<lparr>session := None\<rparr>"
  let ?some = "self\<lparr>session := Some r\<rparr>"
  have a: "session ?init = None"
    by (simp add: PagerDutyNotifyEntity_init_def)
  have sn: "session ?none = None" by simp
  have b: "session (fst (snd (async_send_message message title net (?none, w)))) = Some (created w)
      \<and> created (snd (snd (async_send_message message title net (?none, w)))) = Suc (created w)
      \<and> \<not> closed (heap (snd (snd (async_send_message message title net (?none, w)))) (created w))"
    using async_send_message_frame [of message title net "(?none, w)"]
    by (simp add: async_send_message_entity ensure_session_None [OF sn])
  have s: "session (fst (?some, w)) = Some r" by simp
  obtain xs where xs: "post_calls (snd (run calls (?some, w))) = post_calls w @ xs"
      "\<forall>p\<in>set xs. fst p = r"
    using run_session_Some [OF s, of calls] by auto
  have c: "session (fst (run calls (?some, w))) = Some r
      \<and> created (snd (run calls (?some, w))) = created w
      \<and> (\<forall>p\<in>set (posts_since w (snd (run calls (?some, w)))). fst p = r)"
    using run_session_Some [OF s, of calls] xs by (simp add: posts_since_def)
  have n: "session (fst (?init, w)) = None" using a by simp
  obtain ys where ys: "post_calls (snd (run calls (?init, w))) = post_calls w @ ys"
      "\<forall>p\<in>set ys. fst p = created w"
    using run_session_None [OF n, of calls] by auto
  have d: "created (snd (run calls (?init, w))) \<le> Suc (created w)"
    using run_session_None [OF n, of calls] by simp
  have e: "\<forall>p\<in>set (posts_since w (snd (run calls (?init, w)))). fst p = created w"
    using ys by (simp add: posts_since_def)
  show ?thesis
    using a b c d e by blast
qed

theorem client_created_once_witness:
  "created (snd (run [Deliver ''CPU at 95%'' None Stalls, Teardown, Deliver ''disk full'' None Stalls]
      (PagerDutyNotifyEntity_init ''pagerduty'' ''R-KEY'' ''home-assistant'' ''info'', world0))) \<le> 1
   \<and> list_all (\<lambda>p. fst p = 0)
      (posts_since world0 (snd (run [Deliver ''CPU at 95%'' None Stalls, Teardown, Deliver ''disk full'' None Stalls]
        (PagerDutyNotifyEntity_init ''pagerduty'' ''R-KEY'' ''home-assistant'' ''info'', world0))))
   \<and> length (posts_since world0 (snd (run [Deliver ''CPU at 95%'' None Stalls, Teardown, Deliver ''disk full'' None Stalls]
        (PagerDutyNotifyEntity_init ''pagerduty'' ''R-KEY'' ''home-assistant'' ''info'', world0)))) = 2
   \<and> list_all (\<lambda>p. fst p = 7)
      (posts_since world0 (snd (run [Deliver ''CPU at 95%'' None Stalls, Teardown, Deliver ''disk full'' None Stalls]
        ((PagerDutyNotifyEntity_init ''pagerduty'' ''R-KEY'' ''home-assistant'' ''info'')\<lparr>session := Some 7\<rparr>, world0))))
   \<and> length (posts_since world0 (snd (run [Deliver ''CPU at 95%'' None Stalls, Teardown, Deliver ''disk full'' None Stalls]
        ((PagerDutyNotifyEntity_init ''pagerduty'' ''R-KEY'' ''home-assistant'' ''info'')\<lparr>session := Some 7\<rparr>, world0)))) = 2"
proof -
  have l: "length (posts_since world0 (snd (run [Deliver ''CPU at 95%'' None Stalls, Teardown, Deliver ''disk full'' None Stalls]
        (PagerDutyNotifyEntity_init ''pagerduty'' ''R-KEY'' ''home-assistant'' ''info'', world0)))) = 2"
    "length (posts_since world0 (snd (run [Deliver ''CPU at 95%'' None Stalls, Teardown, Deliver ''disk full'' None Stalls]
        ((PagerDutyNotifyEntity_init ''pagerduty'' ''R-KEY'' ''home-assistant'' ''info'')\<lparr>session := Some 7\<rparr>, world0)))) = 2"
    by (simp_all add: posts_since_def run_def async_send_message_post_calls_state teardown_post_calls
        world0_def)
  show ?thesis
    using l client_created_once [where w = world0 and name = "''pagerduty''" and rkey = "''R-KEY''"
        and default_source = "''home-assistant''" and default_severity = "''info''"
        and self = "PagerDutyNotifyEntity_init ''pagerduty'' ''R-KEY'' ''home-assistant'' ''info''"
        and message = "''CPU at 95%''" and title = None and net = Stalls and r = 7
        and calls = "[Deliver ''CPU at 95%'' None Stalls, Teardown, Deliver ''disk full'' None Stalls]"]
    by (simp add: list_all_iff world0_def)
qed

end

